theory Spec2Isabelle
  imports Main
begin

section \<open>Python values, exceptions and responses\<close>

text \<open>
  The server in \<^verbatim>\<open>gradio/routes.py\<close> passes JSON documents and Python objects around.
  They are modelled by one datatype of Python values (floats are left out: no handler
  computes with them). A Python \<^verbatim>\<open>dict\<close> with string keys is a map.
\<close>

datatype pyobj =
    PyNone
  | PyBool bool
  | PyInt int
  | PyStr string
  | PyList "pyobj list"
  | PyDict "(string \<times> pyobj) list"

text \<open>
  An exception raised by code outside \<^verbatim>\<open>routes.py\<close> (the processing pipeline) is seen
  by the handlers only through its class and through \<^verbatim>\<open>str(error)\<close>.
\<close>

record raised =
  exc_class :: string
  exc_str :: string

text \<open>
  The exceptions that leave a handler: \<^verbatim>\<open>HTTPException(status_code, detail)\<close>, the
  interpreter's own errors, and an exception of the pipeline raised again unchanged.
  \<^verbatim>\<open>UnboundLocalError\<close> is a subclass of \<^verbatim>\<open>NameError\<close> in Python; the interpreter
  raises the former for an unassigned local read in its own function and the latter for
  one read from a nested scope.
\<close>

datatype exn =
    HTTPException nat string
  | NameError
  | UnboundLocalError
  | TypeError
  | KeyError
  | OSError
  | ValueError string
  | Reraised raised

section \<open>String helpers of the Python standard library\<close>

text \<open>
  A Python string is a list of characters. The path functions below only compare
  characters with \<open>/\<close>, \<open>.\<close> and the platform's separators, so nothing depends on how a
  character beyond ASCII is represented.
\<close>

definition startswith :: "string \<Rightarrow> string \<Rightarrow> bool" where
  "startswith s p = (take (length p) s = p)"

definition endswith :: "string \<Rightarrow> string \<Rightarrow> bool" where
  "endswith s p = (length p \<le> length s \<and> drop (length s - length p) s = p)"

text \<open>\<^verbatim>\<open>sub in s\<close> on strings: \<open>sub\<close> occurs in \<open>s\<close> as a contiguous run.\<close>

fun str_contains :: "string \<Rightarrow> string \<Rightarrow> bool" where
  "str_contains [] sub = (sub = [])"
| "str_contains (c # cs) sub = (startswith (c # cs) sub \<or> str_contains cs sub)"

text \<open>\<^verbatim>\<open>s.split(sep)\<close> for a one-character separator; the result is never empty.\<close>

fun split_str :: "char \<Rightarrow> string \<Rightarrow> string list" where
  "split_str sep [] = [[]]"
| "split_str sep (c # cs) =
     (if c = sep then [] # split_str sep cs
      else (case split_str sep cs of
              [] \<Rightarrow> [[c]]
            | w # ws \<Rightarrow> (c # w) # ws))"

text \<open>\<^verbatim>\<open>sep.join(comps)\<close>.\<close>

fun join_str :: "string \<Rightarrow> string list \<Rightarrow> string" where
  "join_str sep [] = []"
| "join_str sep [w] = w"
| "join_str sep (w # v # ws) = w @ sep @ join_str sep (v # ws)"

section \<open>\<^verbatim>\<open>posixpath\<close>\<close>

text \<open>
  \<^verbatim>\<open>posixpath.normpath\<close>, as CPython defines it:
  \<^verbatim>\<open>
    if path == '': return '.'
    initial_slashes = path.startswith('/')
    if initial_slashes and path.startswith('//') and not path.startswith('///'):
        initial_slashes = 2
    comps = path.split('/')
    new_comps = []
    for comp in comps:
        if comp in ('', '.'): continue
        if (comp != '..' or (not initial_slashes and not new_comps) or
                (new_comps and new_comps[-1] == '..')):
            new_comps.append(comp)
        elif new_comps:
            new_comps.pop()
    path = '/'.join(new_comps)
    if initial_slashes: path = '/' * initial_slashes + path
    return path or '.'
  \<close>
\<close>

definition initial_slashes :: "string \<Rightarrow> nat" where
  "initial_slashes path =
     (if startswith path ''/'' then
        (if startswith path ''//'' \<and> \<not> startswith path ''///'' then 2 else 1)
      else 0)"

fun norm_comps :: "nat \<Rightarrow> string list \<Rightarrow> string list \<Rightarrow> string list" where
  "norm_comps slashes [] new_comps = new_comps"
| "norm_comps slashes (c # comps) new_comps =
     (if c = [] \<or> c = ''.'' then norm_comps slashes comps new_comps
      else if c \<noteq> ''..'' \<or> (slashes = 0 \<and> new_comps = [])
              \<or> (new_comps \<noteq> [] \<and> last new_comps = ''..'')
        then norm_comps slashes comps (new_comps @ [c])
      else if new_comps \<noteq> [] then norm_comps slashes comps (butlast new_comps)
      else norm_comps slashes comps new_comps)"

definition normpath :: "string \<Rightarrow> string" where
  "normpath path =
     (if path = [] then ''.''
      else
        (let slashes = initial_slashes path;
             comps = norm_comps slashes (split_str CHR ''/'' path) [];
             joined = join_str ''/'' comps;
             p = (if slashes \<noteq> 0 then replicate slashes CHR ''/'' @ joined else joined)
         in if p = [] then ''.'' else p))"

text \<open>
  \<^verbatim>\<open>posixpath.join(a, b)\<close> with one component:
  \<^verbatim>\<open>
    if b.startswith('/'): path = b
    elif not path or path.endswith('/'): path += b
    else: path += '/' + b
  \<close>
\<close>

definition posixpath_join :: "string \<Rightarrow> string \<Rightarrow> string" where
  "posixpath_join a b =
     (if startswith b ''/'' then b
      else if a = [] \<or> endswith a ''/'' then a @ b
      else a @ ''/'' @ b)"

definition posixpath_isabs :: "string \<Rightarrow> bool" where
  "posixpath_isabs s = startswith s ''/''"

section \<open>The platform's \<^verbatim>\<open>os.path\<close>\<close>

text \<open>
  \<^verbatim>\<open>safe_join\<close> reads \<^verbatim>\<open>os.path.sep\<close>, \<^verbatim>\<open>os.path.altsep\<close> and \<^verbatim>\<open>os.path.isabs\<close>,
  which depend on the platform the server runs on. They are a parameter of the model;
  \<open>posix_os\<close> is their value on a POSIX system.
\<close>

record os_path =
  sep :: string
  altsep :: "string option"
  isabs :: "string \<Rightarrow> bool"

definition posix_os :: os_path where
  "posix_os = \<lparr>sep = ''/'', altsep = None, isabs = posixpath_isabs\<rparr>"

section \<open>\<^verbatim>\<open>safe_join\<close>\<close>

text \<open>
  \<^verbatim>\<open>
    _os_alt_seps = list(sep for sep in [os.path.sep, os.path.altsep]
                        if sep is not None and sep != "/")
  \<close>
\<close>

definition os_alt_seps :: "os_path \<Rightarrow> string list" where
  "os_alt_seps os =
     filter (\<lambda>s. s \<noteq> ''/'') (sep os # (case altsep os of None \<Rightarrow> [] | Some a \<Rightarrow> [a]))"

text \<open>
  \<^verbatim>\<open>
    if path != "":
        filename = posixpath.normpath(path)
    if (any(sep in filename for sep in _os_alt_seps)
        or os.path.isabs(filename)
        or filename == ".."
        or filename.startswith("../")):
        return None
    return posixpath.join(directory, filename)
  \<close>
  With \<open>path = ""\<close> the local \<open>filename\<close> is never assigned. Its first read then
  raises: inside the generator expression if there is an alternative separator to test
  (\<^verbatim>\<open>NameError\<close>), otherwise at \<^verbatim>\<open>os.path.isabs(filename)\<close> (\<^verbatim>\<open>UnboundLocalError\<close>).
  The result \<open>Inr None\<close> is the function's \<^verbatim>\<open>None\<close>.
\<close>

definition safe_join :: "os_path \<Rightarrow> string \<Rightarrow> string \<Rightarrow> exn + string option" where
  "safe_join os directory path =
     (if path \<noteq> [] then
        (let filename = normpath path in
         if list_ex (str_contains filename) (os_alt_seps os)
            \<or> isabs os filename
            \<or> filename = ''..''
            \<or> startswith filename ''../''
         then Inr None
         else Inr (Some (posixpath_join directory filename)))
      else if os_alt_seps os \<noteq> [] then Inl NameError
      else Inl UnboundLocalError)"

section \<open>The application object\<close>

text \<open>
  A block of the UI, as \<^verbatim>\<open>predict\<close> reads it: \<^verbatim>\<open>getattr(block, "stateful", False)\<close>
  and \<^verbatim>\<open>getattr(block, "default_value", None)\<close>. Either attribute may be missing
  (\<open>None\<close> here), and \<^verbatim>\<open>getattr\<close> then gives its default.
\<close>

record block =
  stateful :: "bool option"
  default_value :: "pyobj option"

definition getattr_stateful :: "block \<Rightarrow> bool" where
  "getattr_stateful b = (case stateful b of None \<Rightarrow> False | Some t \<Rightarrow> t)"

definition getattr_default_value :: "block \<Rightarrow> pyobj" where
  "getattr_default_value b = (case default_value b of None \<Rightarrow> PyNone | Some v \<Rightarrow> v)"

text \<open>
  \<^verbatim>\<open>app.blocks\<close>: the fields of the UI object that the routes read. The object itself
  is built elsewhere; its fields are data here.
\<close>

record blocks_obj =
  config :: pyobj
  auth_message :: pyobj
  share :: bool
  encrypt :: bool
  examples :: pyobj
  encryption_key :: string
  show_error :: bool
  blocks :: "nat \<rightharpoonup> block"
  input_components :: "string list"

text \<open>
  \<^verbatim>\<open>app.auth\<close> is \<^verbatim>\<open>None\<close>, a table from usernames to passwords, or a callable
  taking the username and the password.
\<close>

datatype auth_policy =
    AuthTable "string \<rightharpoonup> string"
  | AuthCallable "string \<Rightarrow> string \<Rightarrow> bool"

text \<open>
  A key of a Python dictionary. \<^verbatim>\<open>None\<close>, booleans, integers and strings are hashable,
  and \<^verbatim>\<open>True == 1\<close>, \<^verbatim>\<open>False == 0\<close> as keys; lists and dictionaries are not hashable
  and raise \<^verbatim>\<open>TypeError\<close> when used as a key.
\<close>

datatype dict_key = KNone | KNum int | KStr string

fun as_key :: "pyobj \<Rightarrow> exn + dict_key" where
  "as_key PyNone = Inr KNone"
| "as_key (PyBool b) = Inr (KNum (if b then 1 else 0))"
| "as_key (PyInt n) = Inr (KNum n)"
| "as_key (PyStr s) = Inr (KStr s)"
| "as_key (PyList xs) = Inl TypeError"
| "as_key (PyDict kvs) = Inl TypeError"

type_synonym session_state = "nat \<rightharpoonup> pyobj"

record app =
  auth :: "auth_policy option"
  tokens :: "string \<rightharpoonup> string"
  state_holder :: "dict_key \<rightharpoonup> session_state"
  blocks_of :: blocks_obj
  cwd :: string

text \<open>A request, as far as the routes read it: its cookies.\<close>

record request =
  cookies :: "string \<rightharpoonup> string"

text \<open>
  What a handler returns. \<open>Returned v\<close> is a plain Python value, which the framework
  serialises with status 200; \<open>RedirectResponse url status cookie\<close> carries the cookie set
  on it (key, value, httponly), if any.
\<close>

datatype response =
    Returned pyobj
  | JSONResponse pyobj nat
  | RedirectResponse string nat "(string \<times> string \<times> bool) option"
  | FileResponse string
  | FileResponseBytes string string
  | TemplateResponse string pyobj

section \<open>Auth\<close>

text \<open>
  \<^verbatim>\<open>
    def get_current_user(request):
        token = request.cookies.get("access-token")
        return app.tokens.get(token)
  \<close>
  The keys of \<open>app.tokens\<close> are strings, so a missing cookie finds no user.
\<close>

definition get_current_user :: "app \<Rightarrow> request \<Rightarrow> string option" where
  "get_current_user a req =
     (case cookies req ''access-token'' of
        None \<Rightarrow> None
      | Some token \<Rightarrow> tokens a token)"

text \<open>
  \<^verbatim>\<open>
    def login_check(user = Depends(get_current_user)):
        if app.auth is None or not (user is None):
            return
        raise HTTPException(status_code=401, detail="Not authenticated")
  \<close>
\<close>

definition login_check :: "app \<Rightarrow> string option \<Rightarrow> exn + unit" where
  "login_check a user =
     (if auth a = None \<or> user \<noteq> None then Inr ()
      else Inl (HTTPException 401 ''Not authenticated''))"

text \<open>
  \<^verbatim>\<open>
    def login(form_data):
        username, password = form_data.username, form_data.password
        if (not callable(app.auth) and username in app.auth
                and app.auth[username] == password
           ) or (callable(app.auth) and app.auth.__call__(username, password)):
            token = secrets.token_urlsafe(16)
            app.tokens[token] = username
            response = RedirectResponse(url="/", status_code=302)
            response.set_cookie(key="access-token", value=token, httponly=True)
            return response
        else:
            raise HTTPException(status_code=400, detail="Incorrect credentials.")
  \<close>
  The token drawn by \<^verbatim>\<open>secrets.token_urlsafe(16)\<close> is the argument \<open>token\<close>. The
  condition of the \<^verbatim>\<open>if\<close> is \<open>credentials_ok\<close>; with \<open>app.auth = None\<close> its test
  \<^verbatim>\<open>username in app.auth\<close> raises \<^verbatim>\<open>TypeError\<close>.
\<close>

definition credentials_ok :: "auth_policy option \<Rightarrow> string \<Rightarrow> string \<Rightarrow> exn + bool" where
  "credentials_ok au username password =
     (case au of
        None \<Rightarrow> Inl TypeError
      | Some (AuthTable table) \<Rightarrow>
          Inr (case table username of None \<Rightarrow> False | Some p \<Rightarrow> p = password)
      | Some (AuthCallable f) \<Rightarrow> Inr (f username password))"

definition login :: "app \<Rightarrow> string \<Rightarrow> string \<Rightarrow> string \<Rightarrow> (exn + response) \<times> app" where
  "login a token username password =
     (case credentials_ok (auth a) username password of
        Inl e \<Rightarrow> (Inl e, a)
      | Inr True \<Rightarrow>
          (Inr (RedirectResponse ''/'' 302 (Some (''access-token'', token, True))),
           a\<lparr>tokens := (tokens a)(token \<mapsto> username)\<rparr>)
      | Inr False \<Rightarrow> (Inl (HTTPException 400 ''Incorrect credentials.''), a))"

section \<open>Main routes\<close>

text \<open>
  A route declared with \<^verbatim>\<open>dependencies=[Depends(login_check)]\<close> runs \<open>login_check\<close>
  on the user found by \<open>get_current_user\<close> before its handler; when the dependency
  raises, the framework answers with that exception and the handler does not run.
\<close>

definition gated :: "app \<Rightarrow> request \<Rightarrow> (exn + 'a) \<Rightarrow> exn + 'a" where
  "gated a req handler =
     (case login_check a (get_current_user a req) of
        Inl e \<Rightarrow> Inl e
      | Inr u \<Rightarrow> handler)"

text \<open>
  \<^verbatim>\<open>
    def main(request, user = Depends(get_current_user)):
        if app.auth is None or not (user is None):
            config = app.blocks.config
        else:
            config = {"auth_required": True, "auth_message": app.blocks.auth_message}
        try:
            return templates.TemplateResponse(
                "frontend/index.html", {"request": request, "config": config})
        except TemplateNotFound:
            raise ValueError(...)
  \<close>
  Whether the template exists is the argument \<open>template_found\<close>.
\<close>

definition main_config :: "app \<Rightarrow> string option \<Rightarrow> pyobj" where
  "main_config a user =
     (if auth a = None \<or> user \<noteq> None then config (blocks_of a)
      else PyDict [(''auth_required'', PyBool True),
                   (''auth_message'', auth_message (blocks_of a))])"

definition main :: "bool \<Rightarrow> app \<Rightarrow> request \<Rightarrow> exn + response" where
  "main template_found a req =
     (let config = main_config a (get_current_user a req) in
      if template_found then Inr (TemplateResponse ''frontend/index.html'' config)
      else Inl (ValueError (''Did you install Gradio from source files? You need to build ''
                            @ ''the frontend by running /scripts/build_frontend.sh'')))"

text \<open>
  \<^verbatim>\<open>
    @app.get("/config", dependencies=[Depends(login_check)])
    def get_config():
        return app.blocks.config
  \<close>
\<close>

definition get_config :: "app \<Rightarrow> exn + response" where
  "get_config a = Inr (Returned (config (blocks_of a)))"

definition route_get_config :: "app \<Rightarrow> request \<Rightarrow> exn + response" where
  "route_get_config a req = gated a req (get_config a)"

section \<open>File-serving routes\<close>

text \<open>
  The module constants \<^verbatim>\<open>STATIC_PATH_LIB\<close>, \<^verbatim>\<open>BUILD_PATH_LIB\<close> (directories of the
  installed package) and \<^verbatim>\<open>VERSION\<close> (read from a file) are fixed when the module is
  loaded; they are parameters here, with the platform.
\<close>

record env =
  os_of :: os_path
  STATIC_PATH_LIB :: string
  BUILD_PATH_LIB :: string
  VERSION :: string

definition GRADIO_STATIC_ROOT :: "env \<Rightarrow> string" where
  "GRADIO_STATIC_ROOT e = ''https://gradio.s3-us-west-2.amazonaws.com/'' @ VERSION e @ ''/static/''"

definition GRADIO_BUILD_ROOT :: "env \<Rightarrow> string" where
  "GRADIO_BUILD_ROOT e = ''https://gradio.s3-us-west-2.amazonaws.com/'' @ VERSION e @ ''/assets/''"

text \<open>
  \<^verbatim>\<open>
    def static_resource(path):
        if app.blocks.share:
            return RedirectResponse(GRADIO_STATIC_ROOT + path)
        else:
            static_file = safe_join(STATIC_PATH_LIB, path)
        if static_file is not None:
            return FileResponse(static_file)
        raise HTTPException(status_code=404, detail="Static file not found")
  \<close>
  A \<^verbatim>\<open>RedirectResponse\<close> has status 307 unless told otherwise.
\<close>

definition static_resource :: "env \<Rightarrow> app \<Rightarrow> string \<Rightarrow> exn + response" where
  "static_resource e a path =
     (if share (blocks_of a) then Inr (RedirectResponse (GRADIO_STATIC_ROOT e @ path) 307 None)
      else
        (case safe_join (os_of e) (STATIC_PATH_LIB e) path of
           Inl err \<Rightarrow> Inl err
         | Inr (Some static_file) \<Rightarrow> Inr (FileResponse static_file)
         | Inr None \<Rightarrow> Inl (HTTPException 404 ''Static file not found'')))"

definition build_resource :: "env \<Rightarrow> app \<Rightarrow> string \<Rightarrow> exn + response" where
  "build_resource e a path =
     (if share (blocks_of a) then Inr (RedirectResponse (GRADIO_BUILD_ROOT e @ path) 307 None)
      else
        (case safe_join (os_of e) (BUILD_PATH_LIB e) path of
           Inl err \<Rightarrow> Inl err
         | Inr (Some build_file) \<Rightarrow> Inr (FileResponse build_file)
         | Inr None \<Rightarrow> Inl (HTTPException 404 ''Build file not found'')))"

text \<open>
  The file system and the decryption, as the \<^verbatim>\<open>/file\<close> route uses them:
  \<open>resolve p\<close> is \<^verbatim>\<open>Path(p).resolve()\<close> as the list of its parts below the root
  directory, \<open>read_file\<close> is \<^verbatim>\<open>open(p, "rb").read()\<close> (\<open>None\<close> when the file cannot
  be opened), \<open>decrypt\<close> is \<^verbatim>\<open>encryptor.decrypt\<close> and \<open>basename\<close> is
  \<^verbatim>\<open>os.path.basename\<close>.
\<close>

record file_system =
  resolve :: "string \<Rightarrow> string list"
  read_file :: "string \<rightharpoonup> string"
  decrypt :: "string \<Rightarrow> string \<Rightarrow> string"
  basename :: "string \<Rightarrow> string"

text \<open>\<^verbatim>\<open>Path.parents\<close>: the proper ancestors of a path, the nearest first.\<close>

definition parents :: "string list \<Rightarrow> string list list" where
  "parents parts = map (\<lambda>n. take n parts) (rev [0..<length parts])"

text \<open>
  \<^verbatim>\<open>
    @app.get("/file/{path:path}", dependencies=[Depends(login_check)])
    def file(path):
        if (app.blocks.encrypt and isinstance(app.blocks.examples, str)
                and path.startswith(app.blocks.examples)):
            with open(safe_join(app.cwd, path), "rb") as encrypted_file:
                encrypted_data = encrypted_file.read()
            file_data = encryptor.decrypt(app.blocks.encryption_key, encrypted_data)
            return FileResponse(
                io.BytesIO(file_data), attachment_filename=os.path.basename(path))
        else:
            if Path(app.cwd).resolve() in Path(path).resolve().parents:
                return FileResponse(Path(path).resolve())
  \<close>
  \<^verbatim>\<open>open(None, "rb")\<close> raises \<^verbatim>\<open>TypeError\<close>; a file that cannot be opened raises
  \<^verbatim>\<open>OSError\<close>. Where no branch returns, the handler returns \<^verbatim>\<open>None\<close>.
\<close>

definition examples_prefix :: "app \<Rightarrow> string \<Rightarrow> bool" where
  "examples_prefix a path =
     (case examples (blocks_of a) of
        PyStr ex \<Rightarrow> startswith path ex
      | _ \<Rightarrow> False)"

definition file_handler :: "env \<Rightarrow> file_system \<Rightarrow> app \<Rightarrow> string \<Rightarrow> exn + response" where
  "file_handler e fs a path =
     (if encrypt (blocks_of a) \<and> examples_prefix a path then
        (case safe_join (os_of e) (cwd a) path of
           Inl err \<Rightarrow> Inl err
         | Inr None \<Rightarrow> Inl TypeError
         | Inr (Some name) \<Rightarrow>
             (case read_file fs name of
                None \<Rightarrow> Inl OSError
              | Some encrypted_data \<Rightarrow>
                  Inr (FileResponseBytes
                         (decrypt fs (encryption_key (blocks_of a)) encrypted_data)
                         (basename fs path))))
      else if List.member (parents (resolve fs path)) (resolve fs (cwd a))
        then Inr (FileResponse (''/'' @ join_str ''/'' (resolve fs path)))
      else Inr (Returned PyNone))"

definition route_file :: "env \<Rightarrow> file_system \<Rightarrow> app \<Rightarrow> request \<Rightarrow> string \<Rightarrow> exn + response" where
  "route_file e fs a req path = gated a req (file_handler e fs a path)"

section \<open>Prediction\<close>

text \<open>
  The body of a prediction request is the JSON object sent by the client. The pipeline
  \<^verbatim>\<open>app.blocks.process_api(body, username, session_state)\<close> is not part of
  \<^verbatim>\<open>routes.py\<close>: it is a parameter, a function that returns an output or raises, and
  that leaves the session state (a dictionary it may mutate in place) in a new value.
\<close>

type_synonym body = "string \<rightharpoonup> pyobj"

type_synonym pipeline =
  "body \<Rightarrow> string option \<Rightarrow> session_state \<Rightarrow> (raised + pyobj) \<times> session_state"

text \<open>
  What one call of \<open>predict\<close> does: its response (or the exception that leaves it), the
  application state it leaves, the calls of the pipeline it made, in order, and what it
  printed with \<^verbatim>\<open>traceback.print_exc()\<close>.
\<close>

record outcome =
  response_of :: "exn + response"
  app_after :: app
  pipeline_calls :: "(body \<times> string option \<times> session_state) list"
  printed :: "raised list"

text \<open>
  \<^verbatim>\<open>
    {_id: getattr(block, "default_value", None)
     for _id, block in app.blocks.blocks.items()
     if getattr(block, "stateful", False)}
  \<close>
\<close>

definition stateful_defaults :: "(nat \<rightharpoonup> block) \<Rightarrow> session_state" where
  "stateful_defaults bs =
     (\<lambda>i. case bs i of
               None \<Rightarrow> None
             | Some block \<Rightarrow>
                 if getattr_stateful block then Some (getattr_default_value block) else None)"

text \<open>
  \<^verbatim>\<open>
        try:
            output = await run_in_threadpool(
                app.blocks.process_api, body, username, session_state)
        except BaseException as error:
            if app.blocks.show_error:
                traceback.print_exc()
                return JSONResponse(content={"error": str(error)}, status_code=500)
            else:
                raise error
        return output
  \<close>
\<close>

definition on_result :: "app \<Rightarrow> (body \<times> string option \<times> session_state) list
    \<Rightarrow> raised + pyobj \<Rightarrow> outcome" where
  "on_result a calls result =
     (case result of
        Inr output \<Rightarrow>
          \<lparr>response_of = Inr (Returned output), app_after = a,
           pipeline_calls = calls, printed = []\<rparr>
      | Inl error \<Rightarrow>
          if show_error (blocks_of a) then
            \<lparr>response_of = Inr (JSONResponse (PyDict [(''error'', PyStr (exc_str error))]) 500),
             app_after = a, pipeline_calls = calls, printed = [error]\<rparr>
          else
            \<lparr>response_of = Inl (Reraised error), app_after = a,
             pipeline_calls = calls, printed = []\<rparr>)"

text \<open>
  \<^verbatim>\<open>
    async def predict(request, username = Depends(get_current_user)):
        body = await request.json()
        if "session_hash" in body:
            if body["session_hash"] not in app.state_holder:
                app.state_holder[body["session_hash"]] = {...}
            session_state = app.state_holder[body["session_hash"]]
        else:
            session_state = {}
        ...
  \<close>
  The session state handed to the pipeline is the dictionary stored in the holder
  itself, so what the pipeline leaves in it stays in the holder under the same key;
  the throwaway dictionary of a request without \<open>session_hash\<close> is dropped.
\<close>

definition predict :: "pipeline \<Rightarrow> app \<Rightarrow> body \<Rightarrow> string option \<Rightarrow> outcome" where
  "predict process_api a body username =
     (case body ''session_hash'' of
        Some h \<Rightarrow>
          (case as_key h of
             Inl e \<Rightarrow>
               \<lparr>response_of = Inl e, app_after = a, pipeline_calls = [], printed = []\<rparr>
           | Inr k \<Rightarrow>
               (let holder =
                      (if state_holder a k = None
                       then (state_holder a)(k \<mapsto> stateful_defaults (blocks (blocks_of a)))
                       else state_holder a)
                in case holder k of
                     None \<Rightarrow>
                       \<lparr>response_of = Inl KeyError, app_after = a\<lparr>state_holder := holder\<rparr>,
                        pipeline_calls = [], printed = []\<rparr>
                   | Some session_state \<Rightarrow>
                       (let (result, session_left) = process_api body username session_state
                        in on_result (a\<lparr>state_holder := holder(k \<mapsto> session_left)\<rparr>)
                             [(body, username, session_state)] result)))
      | None \<Rightarrow>
          (let session_state = Map.empty;
               (result, session_left) = process_api body username session_state
           in on_result a [(body, username, session_state)] result))"

text \<open>\<^verbatim>\<open>@app.post("/api/predict/", dependencies=[Depends(login_check)])\<close>\<close>

definition route_predict :: "pipeline \<Rightarrow> app \<Rightarrow> request \<Rightarrow> body \<Rightarrow> outcome" where
  "route_predict process_api a req body =
     (let username = get_current_user a req in
      case login_check a username of
        Inl e \<Rightarrow> \<lparr>response_of = Inl e, app_after = a, pipeline_calls = [], printed = []\<rparr>
      | Inr u \<Rightarrow> predict process_api a body username)"

section \<open>Queue status\<close>

text \<open>
  Modelled from the spec: \<^verbatim>\<open>queueing.get_status\<close>, the queue engine's poll, whose module
  is not among the sources. The spec gives its contract as
  \<^verbatim>\<open>status(job_hash) -> (status_enum, result_or_none)\<close>, and says that an unknown hash
  gives a defined "not found" status, with no result, rather than an exception. The
  engine's jobs are a map from a hash to the status and result it holds for it.
\<close>

definition get_status :: "(string \<rightharpoonup> string \<times> pyobj) \<Rightarrow> string \<Rightarrow> exn + string \<times> pyobj" where
  "get_status jobs hash =
     (case jobs hash of
        None \<Rightarrow> Inr (''not_found'', PyNone)
      | Some (status, data) \<Rightarrow> Inr (status, data))"

text \<open>
  \<^verbatim>\<open>
    async def queue_status(body: QueueStatusBody):
        status, data = queueing.get_status(body.hash)
        return {"status": status, "data": data}
  \<close>
  The handler, over whatever the engine's poll gives.
\<close>

definition queue_status :: "(string \<Rightarrow> exn + string \<times> pyobj) \<Rightarrow> string \<Rightarrow> exn + response" where
  "queue_status engine_get_status hash =
     (case engine_get_status hash of
        Inl e \<Rightarrow> Inl e
      | Inr (status, data) \<Rightarrow>
          Inr (Returned (PyDict [(''status'', PyStr status), (''data'', data)])))"

section \<open>A small deployment\<close>

text \<open>
  A concrete application, used to run the handlers: a UI with one stateful block (id 0,
  default 7) and one block without the \<open>stateful\<close> attribute, two input components, a
  table policy with one user, and pipelines that keep a counter in the session state,
  that fail, or that accept whatever they are given.
\<close>

definition demo_blocks :: blocks_obj where
  "demo_blocks =
     \<lparr>config = PyDict [(''mode'', PyStr ''blocks'')],
      auth_message = PyStr ''Please log in'',
      share = False, encrypt = False, examples = PyNone,
      encryption_key = [], show_error = True,
      blocks = [0 \<mapsto> \<lparr>stateful = Some True, default_value = Some (PyInt 7)\<rparr>,
                1 \<mapsto> \<lparr>stateful = None, default_value = Some (PyInt 3)\<rparr>],
      input_components = [''textbox'', ''slider'']\<rparr>"

definition demo_app :: app where
  "demo_app =
     \<lparr>auth = Some (AuthTable [''admin'' \<mapsto> ''secret'']),
      tokens = Map.empty,
      state_holder = Map.empty,
      blocks_of = demo_blocks,
      cwd = ''/srv/app''\<rparr>"

definition counter_pipeline :: pipeline where
  "counter_pipeline body username session_state =
     (case session_state 0 of
        Some (PyInt n) \<Rightarrow> (Inr (PyList [PyInt n]), session_state(0 \<mapsto> PyInt (n + 1)))
      | _ \<Rightarrow> (Inr (PyList []), session_state))"

definition failing_pipeline :: pipeline where
  "failing_pipeline body username session_state =
     (Inl \<lparr>exc_class = ''ValueError'', exc_str = ''bad input''\<rparr>, session_state)"

definition session_body :: body where
  "session_body = [''session_hash'' \<mapsto> PyStr ''abc'', ''data'' \<mapsto> PyList [PyInt 1, PyInt 2, PyInt 3]]"

definition plain_body :: body where
  "plain_body = [''data'' \<mapsto> PyList [PyInt 1, PyInt 2, PyInt 3]]"

definition open_app :: app where
  "open_app = demo_app\<lparr>auth := None\<rparr>"

definition shared_app :: app where
  "shared_app = open_app\<lparr>blocks_of := demo_blocks\<lparr>share := True\<rparr>\<rparr>"

definition no_cookie :: request where
  "no_cookie = \<lparr>cookies = Map.empty\<rparr>"

definition quiet_app :: app where
  "quiet_app = open_app\<lparr>blocks_of := demo_blocks\<lparr>show_error := False\<rparr>\<rparr>"

definition demo_jobs :: "string \<rightharpoonup> string \<times> pyobj" where
  "demo_jobs = [''j1'' \<mapsto> (''complete'', PyList [PyInt 42])]"

definition accepting_pipeline :: pipeline where
  "accepting_pipeline body username session_state =
     (Inr (case body ''data'' of Some d \<Rightarrow> d | None \<Rightarrow> PyNone), session_state)"

definition posix_env :: env where
  "posix_env =
     \<lparr>os_of = posix_os, STATIC_PATH_LIB = ''/pkg/templates/frontend/static'',
      BUILD_PATH_LIB = ''/pkg/templates/frontend/assets'', VERSION = ''3.0''\<rparr>"

text \<open>
  A file system without symbolic links, for a server process started in \<open>/srv/app\<close>:
  resolving a path is normalising it against that directory. It holds one encrypted
  example; decryption is left as the identity.
\<close>

definition lexical_resolve :: "string \<Rightarrow> string \<Rightarrow> string list" where
  "lexical_resolve wd p =
     filter (\<lambda>c. c \<noteq> []) (split_str CHR ''/'' (normpath (posixpath_join wd p)))"

definition demo_fs :: file_system where
  "demo_fs =
     \<lparr>resolve = lexical_resolve ''/srv/app'',
      read_file = [''/srv/app/examples/a.enc'' \<mapsto> ''ciphertext''],
      decrypt = (\<lambda>key data. data),
      basename = (\<lambda>p. last (split_str CHR ''/'' p))\<rparr>"

definition encrypted_app :: app where
  "encrypted_app =
     open_app\<lparr>blocks_of := demo_blocks\<lparr>encrypt := True, examples := PyStr ''examples''\<rparr>\<rparr>"


text \<open>
  Path components that \<open>normpath\<close> keeps as they are: not empty, not \<open>.\<close>, not \<open>..\<close>,
  and free of the separator.
\<close>

definition clean :: "string list \<Rightarrow> bool" where
  "clean ws = (\<forall>w \<in> set ws. w \<noteq> [] \<and> w \<noteq> ''.'' \<and> w \<noteq> ''..'' \<and> CHR ''/'' \<notin> set w)"

section \<open>Properties of \<^verbatim>\<open>safe_join\<close>\<close>

lemma split_str_nonempty: "split_str s xs \<noteq> []"
  by (induction xs) (auto split: list.splits)

lemma split_str_no_sep: "c \<in> set (split_str s xs) \<Longrightarrow> s \<notin> set c"
  by (induction xs arbitrary: c) (auto split: list.splits if_splits)

lemma split_str_single: "s \<notin> set w \<Longrightarrow> split_str s w = [w]"
  by (induction w) (auto split: list.splits)

lemma split_str_append:
  "s \<notin> set w \<Longrightarrow> split_str s (w @ s # xs) = w # split_str s xs"
  by (induction w) (auto split: list.splits)

lemma split_join:
  "ws \<noteq> [] \<Longrightarrow> \<forall>w \<in> set ws. CHR ''/'' \<notin> set w \<Longrightarrow>
   split_str CHR ''/'' (join_str ''/'' ws) = ws"
proof (induction ws)
  case Nil
  then show ?case by simp
next
  case (Cons w ws)
  show ?case
  proof (cases ws)
    case Nil
    then show ?thesis using Cons.prems by (simp add: split_str_single)
  next
    case (Cons v vs)
    then have "split_str CHR ''/'' (join_str ''/'' ws) = ws"
      using Cons.IH Cons.prems by simp
    then show ?thesis
      using Cons Cons.prems split_str_append[of "CHR ''/''" w "join_str ''/'' ws"] by simp
  qed
qed

lemma norm_comps_shape:
  "\<forall>c \<in> set comps. CHR ''/'' \<notin> set c \<Longrightarrow> clean rest \<Longrightarrow>
   \<exists>k' rest'. norm_comps 0 comps (replicate k ''..'' @ rest) = replicate k' ''..'' @ rest'
      \<and> clean rest'"
proof (induction comps arbitrary: k rest)
  case Nil
  then show ?case by auto
next
  case (Cons c comps)
  show ?case
  proof (cases "c = [] \<or> c = ''.''")
    case True
    then show ?thesis using Cons by auto
  next
    case skip: False
    show ?thesis
    proof (cases "c = ''..''")
      case False
      have "clean (rest @ [c])" using Cons.prems skip False by (auto simp: clean_def)
      from Cons.IH[OF _ this, of k] Cons.prems(1) skip False show ?thesis by auto
    next
      case dd: True
      show ?thesis
      proof (cases "rest = []")
        case True
        have "clean []" by (simp add: clean_def)
        from Cons.IH[OF _ this, of "Suc k"] Cons.prems(1)
        have "\<exists>k' rest'. norm_comps 0 comps (replicate (Suc k) ''..'') = replicate k' ''..'' @ rest' \<and> clean rest'"
          by auto
        moreover have "norm_comps 0 (c # comps) (replicate k ''..'' @ rest) = norm_comps 0 comps (replicate (Suc k) ''..'')"
          using dd True by (cases k) (auto simp: replicate_append_same)
        ultimately show ?thesis by simp
      next
        case False
        then have l: "last (replicate k ''..'' @ rest) = last rest" by simp
        have "last rest \<in> set rest" using False by simp
        then have nl: "last rest \<noteq> ''..''" using Cons.prems(2) by (auto simp: clean_def)
        have cb: "clean (butlast rest)" using Cons.prems(2) by (auto simp: clean_def dest: in_set_butlastD)
        have "norm_comps 0 (c # comps) (replicate k ''..'' @ rest) = norm_comps 0 comps (replicate k ''..'' @ butlast rest)"
          using dd False l nl by (simp add: butlast_append)
        moreover from Cons.IH[OF _ cb, of k] Cons.prems(1)
        have "\<exists>k' rest'. norm_comps 0 comps (replicate k ''..'' @ butlast rest) = replicate k' ''..'' @ rest' \<and> clean rest'"
          by auto
        ultimately show ?thesis by simp
      qed
    qed
  qed
qed

lemma join_dotdot_head:
  "join_str ''/'' (''..'' # ws) = ''..'' \<or> startswith (join_str ''/'' (''..'' # ws)) ''../''"
  by (cases ws) (auto simp: startswith_def)


lemma join_str_empty:
  "\<forall>w \<in> set ws. w \<noteq> [] \<Longrightarrow> join_str s ws = [] \<longleftrightarrow> ws = []"
  by (induction s ws rule: join_str.induct) auto

lemma initial_slashes_0: "initial_slashes path = 0 \<longleftrightarrow> \<not> startswith path ''/''"
  by (simp add: initial_slashes_def)

lemma normpath_absolute:
  "startswith path ''/'' \<Longrightarrow> startswith (normpath path) ''/''"
proof -
  assume a: "startswith path ''/''"
  then have "initial_slashes path = 1 \<or> initial_slashes path = 2"
    by (simp add: initial_slashes_def)
  moreover have "path \<noteq> []" using a by (auto simp: startswith_def)
  ultimately show ?thesis
    by (auto simp: normpath_def Let_def startswith_def numeral_2_eq_2)
qed

lemma clean_nonempty: "clean ws \<Longrightarrow> w \<in> set ws \<Longrightarrow> w \<noteq> []"
  unfolding clean_def by blast

lemma dotdots_clean_nonempty:
  assumes cl: "clean rest" and w: "w \<in> set (replicate k ''..'' @ rest)"
  shows "w \<noteq> []"
proof -
  from w have "w \<in> set (replicate k ''..'') \<or> w \<in> set rest" by simp
  then show ?thesis
  proof
    assume "w \<in> set (replicate k ''..'')"
    with in_set_replicate[of w k "''..''"] have "w = ''..''" by blast
    then show ?thesis by simp
  next
    assume "w \<in> set rest"
    with cl show ?thesis by (rule clean_nonempty)
  qed
qed

lemma normpath_relative_shape:
  assumes "path \<noteq> []" and "\<not> startswith path ''/''"
  shows "\<exists>k rest. clean rest \<and>
           normpath path = (if k = 0 \<and> rest = [] then ''.''
                            else join_str ''/'' (replicate k ''..'' @ rest))"
proof -
  have ns: "\<forall>c \<in> set (split_str CHR ''/'' path). CHR ''/'' \<notin> set c"
    using split_str_no_sep by blast
  have ce: "clean []" by (simp add: clean_def)
  from norm_comps_shape[OF ns ce, of 0] obtain k rest where
    kr: "norm_comps 0 (split_str CHR ''/'' path) [] = replicate k ''..'' @ rest"
    and cl: "clean rest"
    by auto
  define ws where "ws = replicate k ''..'' @ rest"
  have ne: "\<forall>w \<in> set ws. w \<noteq> []"
    unfolding ws_def using dotdots_clean_nonempty[OF cl] by blast
  have is0: "initial_slashes path = 0"
    using assms(2) by (simp add: initial_slashes_def)
  have np: "normpath path = (if join_str ''/'' ws = [] then ''.'' else join_str ''/'' ws)"
    using assms(1) kr by (simp add: normpath_def Let_def is0 ws_def)
  have e: "join_str ''/'' ws = [] \<longleftrightarrow> ws = []"
    using join_str_empty[OF ne] .
  have w0: "ws = [] \<longleftrightarrow> k = 0 \<and> rest = []" by (simp add: ws_def)
  have "normpath path = (if k = 0 \<and> rest = [] then ''.'' else join_str ''/'' ws)"
    unfolding np e w0 ..
  then have "clean rest \<and> normpath path = (if k = 0 \<and> rest = [] then ''.''
                          else join_str ''/'' (replicate k ''..'' @ rest))"
    using cl by (simp only: ws_def simp_thms)
  then show ?thesis by (intro exI)
qed

lemma normpath_descends:
  assumes "path \<noteq> []"
    and "\<not> startswith (normpath path) ''/''"
    and "normpath path \<noteq> ''..''"
    and "\<not> startswith (normpath path) ''../''"
  shows "''..'' \<notin> set (split_str CHR ''/'' (normpath path))"
proof -
  have rel: "\<not> startswith path ''/''" using assms(2) normpath_absolute by blast
  obtain k rest where cl: "clean rest"
    and np: "normpath path = (if k = 0 \<and> rest = [] then ''.''
                              else join_str ''/'' (replicate k ''..'' @ rest))"
    using normpath_relative_shape[OF assms(1) rel] by blast
  have k0: "k = 0"
  proof (rule ccontr)
    assume "k \<noteq> 0"
    then obtain j where "k = Suc j" by (cases k) auto
    then have "normpath path = join_str ''/'' (''..'' # (replicate j ''..'' @ rest))"
      using np by simp
    then show False using join_dotdot_head assms(3,4) by metis
  qed
  show ?thesis
  proof (cases "rest = []")
    case True
    then show ?thesis using np k0 by simp
  next
    case False
    moreover have "\<forall>w \<in> set rest. CHR ''/'' \<notin> set w" using cl by (simp add: clean_def)
    ultimately have "split_str CHR ''/'' (normpath path) = rest"
      using np k0 split_join by simp
    then show ?thesis using cl by (auto simp: clean_def)
  qed
qed


lemma posixpath_join_relative:
  "\<not> startswith f ''/'' \<Longrightarrow>
   take (length d) (posixpath_join d f) = d
   \<and> (drop (length d) (posixpath_join d f) = f \<or> drop (length d) (posixpath_join d f) = ''/'' @ f)"
  by (simp add: posixpath_join_def)

lemma split_str_leading_sep: "split_str CHR ''/'' (CHR ''/'' # f) = [] # split_str CHR ''/'' f"
  by simp

text \<open>
  C1. For a non-empty path, \<open>safe_join\<close> decides on the normalised path: if it is
  absolute for the platform, contains a platform separator other than \<open>/\<close>, is \<open>..\<close> or
  starts with \<open>../\<close>, the result is \<^verbatim>\<open>None\<close>; otherwise the result is the base
  directory joined with the normalised path. A returned path never leaves the base
  directory: where the platform takes a leading \<open>/\<close> as absolute, the result starts
  with the base directory and what follows has no \<open>..\<close> component.
\<close>

theorem safe_join_contract:
  assumes "path \<noteq> []"
  shows "(isabs os (normpath path)
            \<or> list_ex (str_contains (normpath path)) (os_alt_seps os)
            \<or> normpath path = ''..''
            \<or> startswith (normpath path) ''../''
          \<longrightarrow> safe_join os directory path = Inr None)
       \<and> (\<not> (isabs os (normpath path)
            \<or> list_ex (str_contains (normpath path)) (os_alt_seps os)
            \<or> normpath path = ''..''
            \<or> startswith (normpath path) ''../'')
          \<longrightarrow> safe_join os directory path
                = Inr (Some (posixpath_join directory (normpath path))))
       \<and> (\<forall>p. (\<forall>s. startswith s ''/'' \<longrightarrow> isabs os s)
              \<and> safe_join os directory path = Inr (Some p)
          \<longrightarrow> take (length directory) p = directory
              \<and> ''..'' \<notin> set (split_str CHR ''/'' (drop (length directory) p)))"
proof (intro conjI allI impI)
  assume "isabs os (normpath path)
            \<or> list_ex (str_contains (normpath path)) (os_alt_seps os)
            \<or> normpath path = ''..''
            \<or> startswith (normpath path) ''../''"
  then show "safe_join os directory path = Inr None"
    using assms by (auto simp: safe_join_def Let_def)
next
  assume "\<not> (isabs os (normpath path)
            \<or> list_ex (str_contains (normpath path)) (os_alt_seps os)
            \<or> normpath path = ''..''
            \<or> startswith (normpath path) ''../'')"
  then show "safe_join os directory path
                = Inr (Some (posixpath_join directory (normpath path)))"
    using assms by (auto simp: safe_join_def Let_def)
next
  fix p
  assume h: "(\<forall>s. startswith s ''/'' \<longrightarrow> isabs os s)
              \<and> safe_join os directory path = Inr (Some p)"
  let ?f = "normpath path"
  from h assms have na: "\<not> isabs os ?f" and nd: "?f \<noteq> ''..''"
    and ns: "\<not> startswith ?f ''../''" and p: "p = posixpath_join directory ?f"
    by (auto simp: safe_join_def Let_def split: if_splits)
  from h na have rel: "\<not> startswith ?f ''/''" by blast
  have comps: "''..'' \<notin> set (split_str CHR ''/'' ?f)"
    using normpath_descends[OF assms rel nd ns] .
  from posixpath_join_relative[OF rel, of directory] p
  have t: "take (length directory) p = directory"
    and d: "drop (length directory) p = ?f \<or> drop (length directory) p = ''/'' @ ?f"
    by auto
  from t show "take (length directory) p = directory" .
  from d comps show "''..'' \<notin> set (split_str CHR ''/'' (drop (length directory) p))"
    by (auto simp del: split_str.simps simp add: split_str_leading_sep)
qed


theorem safe_join_contract_witness:
  "safe_join posix_os ''/srv/static'' ''img/../../etc/passwd'' = Inr None
   \<and> safe_join posix_os ''/srv/static'' ''img/./logo.svg'' = Inr (Some ''/srv/static/img/logo.svg'')"
proof -
  have n1: "normpath ''img/../../etc/passwd'' = ''../etc/passwd''" by code_simp
  have n2: "normpath ''img/./logo.svg'' = ''img/logo.svg''" by code_simp
  have ne1: "''img/../../etc/passwd'' \<noteq> []" by simp
  have ne2: "''img/./logo.svg'' \<noteq> []" by simp
  have r1: "startswith ''../etc/passwd'' ''../''" by (simp add: startswith_def)
  have a: "safe_join posix_os ''/srv/static'' ''img/../../etc/passwd'' = Inr None"
    using safe_join_contract [OF ne1, of posix_os "''/srv/static''", THEN conjunct1] r1
    by (simp only: n1 simp_thms)
  have r2: "\<not> (isabs posix_os ''img/logo.svg''
            \<or> list_ex (str_contains ''img/logo.svg'') (os_alt_seps posix_os)
            \<or> ''img/logo.svg'' = ''..''
            \<or> startswith ''img/logo.svg'' ''../'')"
    by (simp add: posix_os_def posixpath_isabs_def os_alt_seps_def startswith_def)
  have j: "posixpath_join ''/srv/static'' ''img/logo.svg'' = ''/srv/static/img/logo.svg''"
    by (simp add: posixpath_join_def startswith_def endswith_def)
  have b: "safe_join posix_os ''/srv/static'' ''img/./logo.svg'' = Inr (Some ''/srv/static/img/logo.svg'')"
    using safe_join_contract [OF ne2, of posix_os "''/srv/static''", THEN conjunct2, THEN conjunct1] r2
    by (simp only: n2 j simp_thms)
  from a b show ?thesis by simp
qed

text \<open>
  C10. On the empty path \<open>safe_join\<close> raises: \<open>filename\<close> is read without ever having
  been assigned. The call returns neither \<^verbatim>\<open>None\<close> nor a joined path, on any platform
  and for any base directory.
\<close>

theorem safe_join_empty_path_raises:
  "safe_join os directory '''' =
     Inl (if os_alt_seps os = [] then UnboundLocalError else NameError)
   \<and> safe_join os directory '''' \<noteq> Inr None
   \<and> safe_join os directory '''' \<noteq> Inr (Some p)"
  by (simp add: safe_join_def)

theorem safe_join_empty_path_raises_witness:
  "safe_join posix_os ''/srv/static'' '''' = Inl UnboundLocalError"
  using safe_join_empty_path_raises [of posix_os "''/srv/static''" "''x''"]
  by (simp add: os_alt_seps_def posix_os_def)

section \<open>Properties of the session state\<close>

lemma predict_without_session:
  "body ''session_hash'' = None \<Longrightarrow>
   predict P a body u = on_result a [(body, u, Map.empty)] (fst (P body u Map.empty))"
  by (simp add: predict_def Let_def split: prod.splits)

lemma predict_with_session:
  assumes "body ''session_hash'' = Some h" and "as_key h = Inr k"
  shows "predict P a body u =
           (let st = (case state_holder a k of
                        None \<Rightarrow> stateful_defaults (blocks (blocks_of a))
                      | Some s \<Rightarrow> s)
            in on_result (a\<lparr>state_holder := (state_holder a)(k \<mapsto> snd (P body u st))\<rparr>)
                 [(body, u, st)] (fst (P body u st)))"
  using assms
  by (cases "state_holder a k") (simp_all add: predict_def Let_def split: prod.splits)

lemma on_result_calls: "pipeline_calls (on_result a calls r) = calls"
  by (simp add: on_result_def split: sum.splits)

lemma on_result_app: "app_after (on_result a calls r) = a"
  by (simp add: on_result_def split: sum.splits)

lemma stateful_defaults_iff:
  "stateful_defaults bs i = Some v \<longleftrightarrow>
     (\<exists>b. bs i = Some b \<and> getattr_stateful b \<and> v = getattr_default_value b)"
  by (auto simp: stateful_defaults_def split: option.splits)

text \<open>
  C2. A request without \<open>session_hash\<close> runs the pipeline on an empty state of its own
  and leaves the application as it was. A request with a (hashable) \<open>session_hash\<close>
  that the state holder does not know yet runs the pipeline on a fresh state, which
  holds the default value of every stateful block and nothing else, and stores what
  the pipeline leaves of it under that hash; any later request with the same hash is
  run on that stored state, not on fresh defaults. A request whose hash is known runs
  on the state stored for it.
\<close>

theorem predict_session_state:
  "(body ''session_hash'' = None \<longrightarrow>
      pipeline_calls (predict P a body u) = [(body, u, Map.empty)]
      \<and> app_after (predict P a body u) = a)
   \<and> (\<forall>h k. body ''session_hash'' = Some h \<and> as_key h = Inr k \<and> state_holder a k = None \<longrightarrow>
        pipeline_calls (predict P a body u)
          = [(body, u, stateful_defaults (blocks (blocks_of a)))]
        \<and> (\<forall>i v. stateful_defaults (blocks (blocks_of a)) i = Some v \<longleftrightarrow>
              (\<exists>b. blocks (blocks_of a) i = Some b \<and> getattr_stateful b
                   \<and> v = getattr_default_value b))
        \<and> state_holder (app_after (predict P a body u)) k
          = Some (snd (P body u (stateful_defaults (blocks (blocks_of a)))))
        \<and> (\<forall>body2 u2 P2. body2 ''session_hash'' = Some h \<longrightarrow>
              pipeline_calls (predict P2 (app_after (predict P a body u)) body2 u2)
                = [(body2, u2, snd (P body u (stateful_defaults (blocks (blocks_of a)))))]))
   \<and> (\<forall>h k st. body ''session_hash'' = Some h \<and> as_key h = Inr k \<and> state_holder a k = Some st \<longrightarrow>
        pipeline_calls (predict P a body u) = [(body, u, st)]
        \<and> state_holder (app_after (predict P a body u)) k = Some (snd (P body u st)))"
proof (intro conjI allI impI)
  assume "body ''session_hash'' = None"
  then show "pipeline_calls (predict P a body u) = [(body, u, Map.empty)]"
    and "app_after (predict P a body u) = a"
    by (simp_all add: predict_without_session on_result_calls on_result_app)
next
  fix h k
  assume h: "body ''session_hash'' = Some h \<and> as_key h = Inr k \<and> state_holder a k = None"
  let ?seed = "stateful_defaults (blocks (blocks_of a))"
  from h have p: "predict P a body u =
      on_result (a\<lparr>state_holder := (state_holder a)(k \<mapsto> snd (P body u ?seed))\<rparr>)
        [(body, u, ?seed)] (fst (P body u ?seed))"
    using predict_with_session[of body h k P a u] by (simp add: Let_def)
  show "pipeline_calls (predict P a body u) = [(body, u, ?seed)]"
    by (simp add: p on_result_calls)
  show "state_holder (app_after (predict P a body u)) k = Some (snd (P body u ?seed))"
    by (simp add: p on_result_app)
  {
    fix i v
    show "stateful_defaults (blocks (blocks_of a)) i = Some v \<longleftrightarrow>
              (\<exists>b. blocks (blocks_of a) i = Some b \<and> getattr_stateful b
                   \<and> v = getattr_default_value b)"
      by (rule stateful_defaults_iff)
  }
  {
    fix body2 u2 P2
    assume b2: "body2 ''session_hash'' = Some h"
    have sh: "state_holder (app_after (predict P a body u)) k = Some (snd (P body u ?seed))"
      by (simp add: p on_result_app)
    from h have k: "as_key h = Inr k" by simp
    show "pipeline_calls (predict P2 (app_after (predict P a body u)) body2 u2)
                = [(body2, u2, snd (P body u ?seed))]"
      using predict_with_session[of body2 h k P2 "app_after (predict P a body u)" u2] b2 k
      by (simp add: sh on_result_calls Let_def)
  }
next
  fix h k st
  assume h: "body ''session_hash'' = Some h \<and> as_key h = Inr k \<and> state_holder a k = Some st"
  then have p: "predict P a body u =
      on_result (a\<lparr>state_holder := (state_holder a)(k \<mapsto> snd (P body u st))\<rparr>)
        [(body, u, st)] (fst (P body u st))"
    using predict_with_session[of body h k P a u] by (simp add: Let_def)
  show "pipeline_calls (predict P a body u) = [(body, u, st)]"
    by (simp add: p on_result_calls)
  show "state_holder (app_after (predict P a body u)) k = Some (snd (P body u st))"
    by (simp add: p on_result_app)
qed


theorem predict_session_state_witness:
  "map (\<lambda>(b, u, st). (st 0, st 1)) (pipeline_calls (predict counter_pipeline demo_app session_body None))
     = [(Some (PyInt 7), None)]
   \<and> map (\<lambda>(b, u, st). st 0)
        (pipeline_calls (predict counter_pipeline
           (app_after (predict counter_pipeline demo_app session_body None)) session_body None))
     = [Some (PyInt 8)]
   \<and> map (\<lambda>(b, u, st). st 0) (pipeline_calls (predict counter_pipeline demo_app plain_body None))
     = [None]"
proof -
  have b: "session_body ''session_hash'' = Some (PyStr ''abc'')" by (simp add: session_body_def)
  have k: "as_key (PyStr ''abc'') = Inr (KStr ''abc'')" by simp
  have n: "state_holder demo_app (KStr ''abc'') = None" by (simp add: demo_app_def)
  have pb: "plain_body ''session_hash'' = None" by (simp add: plain_body_def)
  have sd0: "stateful_defaults (blocks (blocks_of demo_app)) 0 = Some (PyInt 7)"
    by (simp add: stateful_defaults_def demo_app_def demo_blocks_def getattr_stateful_def
          getattr_default_value_def)
  have sd1: "stateful_defaults (blocks (blocks_of demo_app)) (Suc 0) = None"
    by (simp add: stateful_defaults_def demo_app_def demo_blocks_def getattr_stateful_def
          getattr_default_value_def)
  note t = predict_session_state [of session_body counter_pipeline demo_app None]
  note t2 = t [THEN conjunct2, THEN conjunct1, rule_format, of "PyStr ''abc''" "KStr ''abc''"]
  have first: "pipeline_calls (predict counter_pipeline demo_app session_body None)
      = [(session_body, None, stateful_defaults (blocks (blocks_of demo_app)))]"
    using t2 b k n by simp
  have second: "pipeline_calls (predict counter_pipeline
           (app_after (predict counter_pipeline demo_app session_body None)) session_body None)
      = [(session_body, None,
          snd (counter_pipeline session_body None (stateful_defaults (blocks (blocks_of demo_app)))))]"
    using t2 b k n by simp
  have third: "pipeline_calls (predict counter_pipeline demo_app plain_body None)
      = [(plain_body, None, Map.empty)]"
    using predict_session_state [of plain_body counter_pipeline demo_app None] pb by simp
  show ?thesis
    by (simp add: first second third sd0 sd1 counter_pipeline_def)
qed

lemma predict_calls_result:
  assumes "pipeline_calls (predict P a body u) = [(b, v, st)]"
  shows "\<exists>a'. blocks_of a' = blocks_of a \<and> predict P a body u = on_result a' [(b, v, st)] (fst (P b v st))"
proof (cases "body ''session_hash''")
  case None
  then show ?thesis
    using assms by (auto simp: predict_def Let_def on_result_calls split: prod.splits)
next
  case (Some h)
  show ?thesis
  proof (cases "as_key h")
    case (Inl e)
    then show ?thesis using assms Some by (simp add: predict_def)
  next
    case (Inr k)
    define s0 where "s0 = (case state_holder a k of
                        None \<Rightarrow> stateful_defaults (blocks (blocks_of a))
                      | Some s \<Rightarrow> s)"
    define a' where "a' = a\<lparr>state_holder := (state_holder a)(k \<mapsto> snd (P body u s0))\<rparr>"
    have p: "predict P a body u = on_result a' [(body, u, s0)] (fst (P body u s0))"
      using predict_with_session[of body h k P a u] Some Inr
      by (simp add: Let_def s0_def a'_def)
    with assms have "[(body, u, s0)] = [(b, v, st)]" by (simp add: on_result_calls)
    then have e: "body = b" "u = v" "s0 = st" by simp_all
    have "blocks_of a' = blocks_of a" by (simp add: a'_def)
    with p e show ?thesis by blast
  qed
qed

text \<open>
  C4. When the pipeline raises on the call that \<open>predict\<close> makes: with \<open>show_error\<close>
  set, the exception is printed on the server and the handler returns the document
  \<open>{"error": str(error)}\<close> with status 500; with \<open>show_error\<close> unset, nothing is
  printed and the same exception leaves the handler.
\<close>

theorem predict_pipeline_exception:
  assumes "pipeline_calls (predict P a body u) = [(b, v, st)]"
    and "fst (P b v st) = Inl error"
  shows "(show_error (blocks_of a) \<longrightarrow>
            response_of (predict P a body u)
              = Inr (JSONResponse (PyDict [(''error'', PyStr (exc_str error))]) 500)
            \<and> printed (predict P a body u) = [error])
       \<and> (\<not> show_error (blocks_of a) \<longrightarrow>
            response_of (predict P a body u) = Inl (Reraised error)
            \<and> printed (predict P a body u) = [])"
proof -
  from predict_calls_result[OF assms(1)] obtain a' where
    b: "blocks_of a' = blocks_of a"
    and p: "predict P a body u = on_result a' [(b, v, st)] (fst (P b v st))"
    by blast
  show ?thesis
    by (simp add: p assms(2) on_result_def b)
qed


theorem predict_pipeline_exception_witness:
  "response_of (predict failing_pipeline demo_app plain_body None)
     = Inr (JSONResponse (PyDict [(''error'', PyStr ''bad input'')]) 500)
   \<and> printed (predict failing_pipeline demo_app plain_body None)
     = [\<lparr>exc_class = ''ValueError'', exc_str = ''bad input''\<rparr>]
   \<and> response_of (predict failing_pipeline quiet_app plain_body None)
     = Inl (Reraised \<lparr>exc_class = ''ValueError'', exc_str = ''bad input''\<rparr>)
   \<and> printed (predict failing_pipeline quiet_app plain_body None) = []"
proof -
  have pb: "plain_body ''session_hash'' = None" by (simp add: plain_body_def)
  have c1: "pipeline_calls (predict failing_pipeline demo_app plain_body None)
              = [(plain_body, None, Map.empty)]"
    using predict_without_session[of plain_body failing_pipeline demo_app None] pb
    by (simp add: on_result_calls)
  have c2: "pipeline_calls (predict failing_pipeline quiet_app plain_body None)
              = [(plain_body, None, Map.empty)]"
    using predict_without_session[of plain_body failing_pipeline quiet_app None] pb
    by (simp add: on_result_calls)
  have f: "fst (failing_pipeline plain_body None Map.empty)
             = Inl \<lparr>exc_class = ''ValueError'', exc_str = ''bad input''\<rparr>"
    by (simp add: failing_pipeline_def)
  have s1: "show_error (blocks_of demo_app)" by (simp add: demo_app_def demo_blocks_def)
  have s2: "\<not> show_error (blocks_of quiet_app)" by (simp add: quiet_app_def)
  show ?thesis
    using predict_pipeline_exception [OF c1 f] predict_pipeline_exception [OF c2 f] s1 s2
    by simp
qed

lemma route_predict_allowed:
  "login_check a (get_current_user a req) = Inr () \<Longrightarrow>
   route_predict P a req body = predict P a body (get_current_user a req)"
  by (simp add: route_predict_def)

lemma predict_calls_once:
  assumes "case body ''session_hash'' of None \<Rightarrow> True | Some h \<Rightarrow> as_key h \<noteq> Inl TypeError"
  shows "\<exists>st. pipeline_calls (predict P a body u) = [(body, u, st)]"
proof (cases "body ''session_hash''")
  case None
  then show ?thesis
    using predict_without_session[of body P a u] by (simp add: on_result_calls)
next
  case (Some h)
  with assms obtain k where k: "as_key h = Inr k" by (cases h) auto
  show ?thesis
    using predict_with_session[of body h k P a u] Some k
    by (simp add: Let_def on_result_calls)
qed

text \<open>
  C7. The claim that a request whose \<open>data\<close> has the wrong length is rejected before
  the pipeline is called fails: with three values against two input components, the
  pipeline is called with the body and its output is returned.
\<close>

theorem predict_length_mismatch_counterexample:
  "plain_body ''data'' = Some (PyList [PyInt 1, PyInt 2, PyInt 3])
   \<and> length (input_components (blocks_of open_app)) = 2
   \<and> pipeline_calls (route_predict accepting_pipeline open_app no_cookie plain_body)
       = [(plain_body, None, Map.empty)]
   \<and> response_of (route_predict accepting_pipeline open_app no_cookie plain_body)
       = Inr (Returned (PyList [PyInt 1, PyInt 2, PyInt 3]))"
  by (simp add: route_predict_def login_check_def get_current_user_def open_app_def
        demo_app_def demo_blocks_def no_cookie_def plain_body_def predict_def Let_def
        accepting_pipeline_def on_result_def)

text \<open>
  C7, amended. \<open>predict\<close> does not compare the length of \<open>data\<close> with the number of
  input components: a request that passes the auth gate, whose \<open>session_hash\<close> (if any)
  is hashable, reaches the pipeline exactly once, with its body unchanged, also when
  the lengths differ; if the pipeline returns an output, that output is the response.
  Any rejection for the length is the pipeline's.
\<close>

theorem predict_forwards_any_length:
  assumes "login_check a (get_current_user a req) = Inr ()"
    and "body ''data'' = Some (PyList xs)"
    and "length xs \<noteq> length (input_components (blocks_of a))"
    and "case body ''session_hash'' of None \<Rightarrow> True | Some h \<Rightarrow> as_key h \<noteq> Inl TypeError"
  shows "\<exists>st. pipeline_calls (route_predict P a req body) = [(body, get_current_user a req, st)]
           \<and> (\<forall>output. fst (P body (get_current_user a req) st) = Inr output \<longrightarrow>
                response_of (route_predict P a req body) = Inr (Returned output))"
proof -
  let ?u = "get_current_user a req"
  have r: "route_predict P a req body = predict P a body ?u"
    using assms(1) by (rule route_predict_allowed)
  from predict_calls_once[of body P a ?u] assms(4) obtain st where
    c: "pipeline_calls (predict P a body ?u) = [(body, ?u, st)]" by blast
  from predict_calls_result[OF c] obtain a' where
    p: "predict P a body ?u = on_result a' [(body, ?u, st)] (fst (P body ?u st))" by blast
  have "\<forall>output. fst (P body ?u st) = Inr output \<longrightarrow>
          response_of (predict P a body ?u) = Inr (Returned output)"
    by (simp add: p on_result_def)
  with c r show ?thesis by auto
qed

theorem predict_forwards_any_length_witness:
  "(\<exists>st. pipeline_calls (route_predict accepting_pipeline open_app no_cookie plain_body)
           = [(plain_body, None, st)])
   \<and> response_of (route_predict accepting_pipeline open_app no_cookie plain_body)
       = Inr (Returned (PyList [PyInt 1, PyInt 2, PyInt 3]))"
proof -
  have u: "get_current_user open_app no_cookie = None"
    by (simp add: get_current_user_def no_cookie_def)
  have g: "login_check open_app (get_current_user open_app no_cookie) = Inr ()"
    by (simp add: login_check_def open_app_def)
  have d: "plain_body ''data'' = Some (PyList [PyInt 1, PyInt 2, PyInt 3])"
    by (simp add: plain_body_def)
  have l: "length [PyInt 1, PyInt 2, PyInt 3] \<noteq> length (input_components (blocks_of open_app))"
    by (simp add: open_app_def demo_app_def demo_blocks_def)
  have h: "case plain_body ''session_hash'' of None \<Rightarrow> True | Some h \<Rightarrow> as_key h \<noteq> Inl TypeError"
    by (simp add: plain_body_def)
  have o: "\<And>st. fst (accepting_pipeline plain_body None st) = Inr (PyList [PyInt 1, PyInt 2, PyInt 3])"
    by (simp add: accepting_pipeline_def plain_body_def)
  from predict_forwards_any_length [where a = open_app and req = no_cookie
         and body = plain_body and P = accepting_pipeline
         and xs = "[PyInt 1, PyInt 2, PyInt 3]"] g d l h
  show ?thesis unfolding u using o by auto
qed

section \<open>Properties of the auth gate\<close>

text \<open>
  C3. With an auth policy configured, a prediction request whose cookie token is
  missing, or is not in the token table, is answered with 401; the pipeline is not
  called and the application state is unchanged.
\<close>

theorem predict_unauthenticated_401:
  assumes "auth a \<noteq> None"
    and "case cookies req ''access-token'' of None \<Rightarrow> True | Some t \<Rightarrow> tokens a t = None"
  shows "route_predict process_api a req body =
           \<lparr>response_of = Inl (HTTPException 401 ''Not authenticated''),
            app_after = a, pipeline_calls = [], printed = []\<rparr>"
  using assms
  by (auto simp: route_predict_def login_check_def get_current_user_def split: option.splits)

theorem predict_unauthenticated_401_witness:
  "response_of (route_predict counter_pipeline demo_app no_cookie session_body)
     = Inl (HTTPException 401 ''Not authenticated'')
   \<and> pipeline_calls (route_predict counter_pipeline demo_app no_cookie session_body) = []
   \<and> response_of (route_predict counter_pipeline demo_app
                      \<lparr>cookies = [''access-token'' \<mapsto> ''forged'']\<rparr> session_body)
     = Inl (HTTPException 401 ''Not authenticated'')"
proof -
  have au: "auth demo_app \<noteq> None" by (simp add: demo_app_def)
  have c1: "case cookies no_cookie ''access-token'' of None \<Rightarrow> True
            | Some t \<Rightarrow> tokens demo_app t = None"
    by (simp add: no_cookie_def)
  have c2: "case cookies \<lparr>cookies = [''access-token'' \<mapsto> ''forged'']\<rparr> ''access-token'' of
              None \<Rightarrow> True | Some t \<Rightarrow> tokens demo_app t = None"
    by (simp add: demo_app_def)
  show ?thesis
    using predict_unauthenticated_401 [OF au c1, of counter_pipeline session_body]
          predict_unauthenticated_401 [OF au c2, of counter_pipeline session_body]
    by simp
qed

text \<open>
  C5. Under a table policy, a login succeeds exactly when the table holds the supplied
  password for the supplied username. It then stores the drawn token for that username
  and answers with a 302 redirect to \<open>/\<close> that sets the \<open>access-token\<close> cookie,
  http-only. Every other login is answered with 400 and leaves the application, and so
  the token table, as it was.
\<close>

theorem login_table_policy:
  assumes "auth a = Some (AuthTable table)"
  shows "login a token username password =
           (if table username = Some password
            then (Inr (RedirectResponse ''/'' 302 (Some (''access-token'', token, True))),
                  a\<lparr>tokens := (tokens a)(token \<mapsto> username)\<rparr>)
            else (Inl (HTTPException 400 ''Incorrect credentials.''), a))
         \<and> ((\<exists>r. fst (login a token username password) = Inr r)
              \<longleftrightarrow> table username = Some password)"
  using assms by (auto simp: login_def credentials_ok_def split: option.splits)

theorem login_table_policy_witness:
  "fst (login demo_app ''tok1'' ''admin'' ''secret'')
     = Inr (RedirectResponse ''/'' 302 (Some (''access-token'', ''tok1'', True)))
   \<and> tokens (snd (login demo_app ''tok1'' ''admin'' ''secret'')) ''tok1'' = Some ''admin''
   \<and> login demo_app ''tok1'' ''admin'' ''Secret''
     = (Inl (HTTPException 400 ''Incorrect credentials.''), demo_app)
   \<and> login demo_app ''tok1'' ''root'' ''secret''
     = (Inl (HTTPException 400 ''Incorrect credentials.''), demo_app)"
proof -
  have au: "auth demo_app = Some (AuthTable [''admin'' \<mapsto> ''secret''])"
    by (simp add: demo_app_def)
  show ?thesis
    using login_table_policy [OF au, of "''tok1''" "''admin''" "''secret''"]
          login_table_policy [OF au, of "''tok1''" "''admin''" "''Secret''"]
          login_table_policy [OF au, of "''tok1''" "''root''" "''secret''"]
    by simp
qed

text \<open>
  C6. The claim that an unauthenticated caller of \<open>/config\<close> gets the reduced document
  fails: the route is gated, and the gate answers 401.
\<close>

theorem get_config_unauthenticated_counterexample:
  "route_get_config demo_app no_cookie = Inl (HTTPException 401 ''Not authenticated'')
   \<and> route_get_config demo_app no_cookie
       \<noteq> Inr (Returned (PyDict [(''auth_required'', PyBool True),
                                (''auth_message'', auth_message (blocks_of demo_app))]))"
  by (simp add: route_get_config_def gated_def login_check_def get_current_user_def
        demo_app_def no_cookie_def)


text \<open>
  C6, amended. With an auth policy configured, \<open>/config\<close> returns the full
  configuration document to an authenticated caller and answers an unauthenticated one
  with 401; the reduced document \<open>{"auth_required": true, "auth_message": ...}\<close> is what
  the \<open>/\<close> route hands to the page template for an unauthenticated caller.
\<close>

theorem get_config_gated:
  assumes "auth a \<noteq> None"
  shows "(get_current_user a req \<noteq> None \<longrightarrow>
            route_get_config a req = Inr (Returned (config (blocks_of a))))
       \<and> (get_current_user a req = None \<longrightarrow>
            route_get_config a req = Inl (HTTPException 401 ''Not authenticated'')
            \<and> main True a req
                = Inr (TemplateResponse ''frontend/index.html''
                        (PyDict [(''auth_required'', PyBool True),
                                 (''auth_message'', auth_message (blocks_of a))])))"
  using assms
  by (auto simp: route_get_config_def gated_def login_check_def get_config_def main_def
        main_config_def)

theorem get_config_gated_witness:
  "route_get_config demo_app no_cookie = Inl (HTTPException 401 ''Not authenticated'')
   \<and> main True demo_app no_cookie
       = Inr (TemplateResponse ''frontend/index.html''
               (PyDict [(''auth_required'', PyBool True),
                        (''auth_message'', PyStr ''Please log in'')]))
   \<and> route_get_config (demo_app\<lparr>tokens := [''tok1'' \<mapsto> ''admin'']\<rparr>)
        \<lparr>cookies = [''access-token'' \<mapsto> ''tok1'']\<rparr>
       = Inr (Returned (PyDict [(''mode'', PyStr ''blocks'')]))"
proof -
  have a1: "auth demo_app \<noteq> None" by (simp add: demo_app_def)
  have a2: "auth (demo_app\<lparr>tokens := [''tok1'' \<mapsto> ''admin'']\<rparr>) \<noteq> None"
    by (simp add: demo_app_def)
  have u1: "get_current_user demo_app no_cookie = None"
    by (simp add: get_current_user_def no_cookie_def)
  have u2: "get_current_user (demo_app\<lparr>tokens := [''tok1'' \<mapsto> ''admin'']\<rparr>)
              \<lparr>cookies = [''access-token'' \<mapsto> ''tok1'']\<rparr> \<noteq> None"
    by (simp add: get_current_user_def)
  show ?thesis
    using get_config_gated [OF a1, of no_cookie] get_config_gated [OF a2, of "\<lparr>cookies = [''access-token'' \<mapsto> ''tok1'']\<rparr>"] u1 u2
    by (simp add: demo_app_def demo_blocks_def)
qed

section \<open>Properties of the queue facade\<close>

text \<open>
  C8. Polling the status of a hash the queue engine does not know returns the document
  \<open>{"status": "not_found", "data": null}\<close>; polling a known hash returns the engine's
  status and result in the same shape; neither raises.
\<close>

theorem queue_status_envelope:
  "(jobs hash = None \<longrightarrow>
      queue_status (get_status jobs) hash
        = Inr (Returned (PyDict [(''status'', PyStr ''not_found''), (''data'', PyNone)])))
   \<and> (\<forall>status data. jobs hash = Some (status, data) \<longrightarrow>
      queue_status (get_status jobs) hash
        = Inr (Returned (PyDict [(''status'', PyStr status), (''data'', data)])))
   \<and> (\<forall>e. queue_status (get_status jobs) hash \<noteq> Inl e)"
  by (auto simp: queue_status_def get_status_def split: option.splits)

theorem queue_status_envelope_witness:
  "queue_status (get_status demo_jobs) ''zzz''
     = Inr (Returned (PyDict [(''status'', PyStr ''not_found''), (''data'', PyNone)]))
   \<and> queue_status (get_status demo_jobs) ''j1''
     = Inr (Returned (PyDict [(''status'', PyStr ''complete''), (''data'', PyList [PyInt 42])]))"
proof -
  have u: "demo_jobs ''zzz'' = None" by (simp add: demo_jobs_def)
  have k: "demo_jobs ''j1'' = Some (''complete'', PyList [PyInt 42])" by (simp add: demo_jobs_def)
  show ?thesis
    using queue_status_envelope [of demo_jobs "''zzz''"] queue_status_envelope [of demo_jobs "''j1''"] u k
    by simp
qed

section \<open>Properties of the file-serving routes\<close>

lemma member_parents:
  "List.member (parents xs) y \<Longrightarrow> \<exists>n < length xs. take n xs = y"
  by (auto simp: parents_def)

lemma traversal_rejected:
  assumes "path \<noteq> []"
    and "isabs os (normpath path)
          \<or> list_ex (str_contains (normpath path)) (os_alt_seps os)
          \<or> normpath path = ''..''
          \<or> startswith (normpath path) ''../''"
  shows "safe_join os directory path = Inr None"
  using assms by (auto simp: safe_join_def Let_def)

text \<open>
  C9. The claim that every file-serving route answers a traversal attempt with 404
  fails. In share mode \<open>/static\<close> answers with a redirect. The \<open>/file\<close> route returns
  \<^verbatim>\<open>None\<close> (status 200, body \<open>null\<close>) for a path outside \<open>app.cwd\<close>, and in its
  encrypted-examples branch it passes the \<^verbatim>\<open>None\<close> of \<open>safe_join\<close> to \<^verbatim>\<open>open\<close>, which
  raises \<^verbatim>\<open>TypeError\<close>.
\<close>

theorem traversal_answers_counterexample:
  "static_resource posix_env shared_app ''../../etc/passwd''
     = Inr (RedirectResponse
              ''https://gradio.s3-us-west-2.amazonaws.com/3.0/static/../../etc/passwd'' 307 None)
   \<and> static_resource posix_env shared_app ''../../etc/passwd''
       \<noteq> Inl (HTTPException 404 ''Static file not found'')
   \<and> file_handler posix_env demo_fs open_app ''../../etc/passwd'' = Inr (Returned PyNone)
   \<and> file_handler posix_env demo_fs encrypted_app ''examples/../../etc/passwd'' = Inl TypeError"
proof -
  have s: "static_resource posix_env shared_app ''../../etc/passwd''
     = Inr (RedirectResponse
              ''https://gradio.s3-us-west-2.amazonaws.com/3.0/static/../../etc/passwd'' 307 None)"
    by (simp add: static_resource_def shared_app_def GRADIO_STATIC_ROOT_def posix_env_def)
  have f1: "file_handler posix_env demo_fs open_app ''../../etc/passwd'' = Inr (Returned PyNone)"
    by code_simp
  have f2: "file_handler posix_env demo_fs encrypted_app ''examples/../../etc/passwd'' = Inl TypeError"
    by code_simp
  from s f1 f2 show ?thesis by simp
qed

text \<open>
  C9, amended. Take a non-empty path that \<open>safe_join\<close> rejects (its normalised form is
  absolute, holds a separator other than \<open>/\<close>, is \<open>..\<close> or starts with \<open>../\<close>). When the
  UI is not shared, \<open>/static\<close> and \<open>/assets\<close> answer it with 404. When the UI is shared,
  they answer with a redirect to the CDN root followed by the path, and read no local
  file. The \<open>/file\<close> route never answers it with decrypted file content, and serves a
  file only if the resolved \<open>app.cwd\<close> is a proper ancestor of the resolved path, which
  is then the file served.
\<close>

theorem traversal_answers:
  assumes "path \<noteq> []"
    and "isabs (os_of e) (normpath path)
          \<or> list_ex (str_contains (normpath path)) (os_alt_seps (os_of e))
          \<or> normpath path = ''..''
          \<or> startswith (normpath path) ''../''"
  shows "(\<not> share (blocks_of a) \<longrightarrow>
            static_resource e a path = Inl (HTTPException 404 ''Static file not found'')
            \<and> build_resource e a path = Inl (HTTPException 404 ''Build file not found''))
       \<and> (share (blocks_of a) \<longrightarrow>
            static_resource e a path
              = Inr (RedirectResponse (GRADIO_STATIC_ROOT e @ path) 307 None)
            \<and> build_resource e a path
              = Inr (RedirectResponse (GRADIO_BUILD_ROOT e @ path) 307 None))
       \<and> (\<forall>d n. file_handler e fs a path \<noteq> Inr (FileResponseBytes d n))
       \<and> (\<forall>f. file_handler e fs a path = Inr (FileResponse f) \<longrightarrow>
            f = ''/'' @ join_str ''/'' (resolve fs path)
            \<and> (\<exists>n < length (resolve fs path). take n (resolve fs path) = resolve fs (cwd a)))"
proof -
  have sj: "\<And>directory. safe_join (os_of e) directory path = Inr None"
    using traversal_rejected[OF assms] by simp
  have 1: "\<not> share (blocks_of a) \<longrightarrow>
            static_resource e a path = Inl (HTTPException 404 ''Static file not found'')
            \<and> build_resource e a path = Inl (HTTPException 404 ''Build file not found'')"
    by (simp add: static_resource_def build_resource_def sj)
  have 2: "share (blocks_of a) \<longrightarrow>
            static_resource e a path
              = Inr (RedirectResponse (GRADIO_STATIC_ROOT e @ path) 307 None)
            \<and> build_resource e a path
              = Inr (RedirectResponse (GRADIO_BUILD_ROOT e @ path) 307 None)"
    by (simp add: static_resource_def build_resource_def)
  have 3: "\<forall>d n. file_handler e fs a path \<noteq> Inr (FileResponseBytes d n)"
    by (simp add: file_handler_def sj)
  have 4: "\<forall>f. file_handler e fs a path = Inr (FileResponse f) \<longrightarrow>
            f = ''/'' @ join_str ''/'' (resolve fs path)
            \<and> (\<exists>n < length (resolve fs path). take n (resolve fs path) = resolve fs (cwd a))"
    using member_parents[of "resolve fs path" "resolve fs (cwd a)"]
    by (auto simp: file_handler_def sj split: if_splits)
  from 1 2 3 4 show ?thesis by blast
qed


theorem traversal_answers_witness:
  "static_resource posix_env open_app ''../../etc/passwd''
     = Inl (HTTPException 404 ''Static file not found'')
   \<and> build_resource posix_env open_app ''../../etc/passwd''
     = Inl (HTTPException 404 ''Build file not found'')
   \<and> build_resource posix_env shared_app ''../../etc/passwd''
     = Inr (RedirectResponse
              ''https://gradio.s3-us-west-2.amazonaws.com/3.0/assets/../../etc/passwd'' 307 None)"
proof -
  have ne: "''../../etc/passwd'' \<noteq> []" by simp
  have n: "normpath ''../../etc/passwd'' = ''../../etc/passwd''" by code_simp
  have t: "isabs (os_of posix_env) (normpath ''../../etc/passwd'')
          \<or> list_ex (str_contains (normpath ''../../etc/passwd'')) (os_alt_seps (os_of posix_env))
          \<or> normpath ''../../etc/passwd'' = ''..''
          \<or> startswith (normpath ''../../etc/passwd'') ''../''"
    by (simp add: n startswith_def)
  have o: "\<not> share (blocks_of open_app)"
    by (simp add: open_app_def demo_app_def demo_blocks_def)
  have sh: "share (blocks_of shared_app)" by (simp add: shared_app_def)
  have r: "GRADIO_BUILD_ROOT posix_env @ ''../../etc/passwd''
            = ''https://gradio.s3-us-west-2.amazonaws.com/3.0/assets/../../etc/passwd''"
    by (simp add: GRADIO_BUILD_ROOT_def posix_env_def)
  show ?thesis
    using traversal_answers [OF ne t, of open_app demo_fs]
          traversal_answers [OF ne t, of shared_app demo_fs] o sh r
    by simp
qed

end
